theory Spec2Isabelle
  imports Main
begin

section \<open>Data model\<close>

text \<open>
  The server keeps its data in a relational database behind Sequelize models.
  \<^verbatim>\<open>game.entity.ts\<close> declares the table \<^verbatim>\<open>Game\<close> with the columns
  \<^verbatim>\<open>id\<close>, \<^verbatim>\<open>isRanked\<close>, \<^verbatim>\<open>status\<close>, \<^verbatim>\<open>invitee\<close> and two associations,
  \<^verbatim>\<open>users\<close> (many-to-many with \<^verbatim>\<open>User\<close> through \<^verbatim>\<open>UserGame\<close>) and
  \<^verbatim>\<open>modifiers\<close>. No function modelled below reads \<^verbatim>\<open>modifiers\<close>, so the
  records leave it to their extension part.

  The key of a game is a UUID (\<^verbatim>\<open>DataType.UUID\<close>); its type is the type
  parameter \<open>'i\<close> here. The user-game controller identifies a game by a number
  instead, which is no key: see \<open>js_id\<close> below.
\<close>

datatype HttpStatus = BAD_REQUEST | NOT_FOUND | CONFLICT | INTERNAL_SERVER_ERROR

text \<open>What the database or Sequelize rejects a query with.\<close>

datatype db_error =
    Unavailable
  | NotNullViolation string
  | InvalidEnumValue string
  | UniqueViolation string
  | UndefinedWhereValue string
  | OperatorDoesNotExist string

text \<open>\<^verbatim>\<open>new HttpException(response, status)\<close>: the response is a message or
  the error that was caught.\<close>

datatype response = Message string | Caught db_error

datatype HttpException = HttpException response HttpStatus

record User =
  login :: string

text \<open>A row of the table \<^verbatim>\<open>Game\<close>: the columns of \<^verbatim>\<open>game.entity.ts\<close>.
  The column \<^verbatim>\<open>invitee\<close> is nullable, the others are not.\<close>

record 'i GameRow =
  id_col :: 'i
  isRanked :: bool
  status :: string
  invitee :: "string option"

text \<open>A \<^verbatim>\<open>Game\<close> object as a query with \<^verbatim>\<open>include: [{ all: true }]\<close> returns it:
  the columns and the associated users.\<close>

record 'i Game = "'i GameRow" +
  users :: "User list"

text \<open>Modelled from the spec: \<^verbatim>\<open>user-game.entity.ts\<close> is not among the sources.
  A user-game row is one occupant slot of a game: it links a user (by login) to a
  game (by id) and carries that slot's score; the controller reads
  \<^verbatim>\<open>user_game.userLogin\<close> and writes \<^verbatim>\<open>score\<close>.\<close>

record 'i UserGame =
  userLogin :: string
  gameId :: 'i
  score :: int

text \<open>What a caller hands to a query as the id of a game. \<^verbatim>\<open>findById(id: string)\<close>
  is declared for the key, but the user-game controller hands it the number that
  \<^verbatim>\<open>ParseIntPipe\<close> has made of its parameter.\<close>

datatype 'i js_id = Key 'i | Number int

text \<open>The database: the three tables, each in the order in which the database
  returns its rows to a query without an \<^verbatim>\<open>order\<close> clause, and \<open>fault\<close>, the
  error with which every query is rejected while the database is unavailable
  (\<open>None\<close> when it is up).\<close>

record 'i db =
  userTable :: "User list"
  gameTable :: "'i GameRow list"
  userGameTable :: "'i UserGame list"
  fault :: "db_error option"

section \<open>The Game repository\<close>

text \<open>The values of the column type
  \<^verbatim>\<open>DataType.ENUM('ongoing', 'finished', 'abandoned', 'waiting', 'invitation')\<close>.\<close>

definition Game_status_values :: "string list" where
  "Game_status_values =
     [''ongoing'', ''finished'', ''abandoned'', ''waiting'', ''invitation'']"

text \<open>\<^verbatim>\<open>include: [{ all: true }]\<close>: the users of a game are the users linked to it by
  a row of \<^verbatim>\<open>UserGame\<close> (\<^verbatim>\<open>@BelongsToMany(() => User, () => UserGame)\<close>).\<close>

definition include_all :: "'i db \<Rightarrow> 'i GameRow \<Rightarrow> 'i Game" where
  "include_all d row =
     \<lparr> id_col = id_col row, isRanked = isRanked row, status = status row,
       invitee = invitee row,
       users = filter (\<lambda>u. list_ex (\<lambda>ug. userLogin ug = login u \<and> gameId ug = id_col row)
                            (userGameTable d))
                      (userTable d) \<rparr>"

text \<open>\<^verbatim>\<open>gameRepository.findAll({ include: [{ all: true }], where })\<close> and
  \<^verbatim>\<open>findOne\<close>: the rows that satisfy the \<^verbatim>\<open>where\<close> clause (the first of them),
  or the database's error.\<close>

definition gameRepository_findAll ::
  "('i GameRow \<Rightarrow> bool) \<Rightarrow> 'i db \<Rightarrow> db_error + 'i Game list" where
  "gameRepository_findAll wh d =
     (case fault d of
        Some e \<Rightarrow> Inl e
      | None \<Rightarrow> Inr (map (include_all d) (filter wh (gameTable d))))"

definition gameRepository_findOne ::
  "('i GameRow \<Rightarrow> bool) \<Rightarrow> 'i db \<Rightarrow> db_error + 'i Game option" where
  "gameRepository_findOne wh d =
     (case fault d of
        Some e \<Rightarrow> Inl e
      | None \<Rightarrow> Inr (map_option (include_all d) (find wh (gameTable d))))"

text \<open>All games as \<^verbatim>\<open>include: [{ all: true }]\<close> loads them.\<close>

definition stored_games :: "'i db \<Rightarrow> 'i Game list" where
  "stored_games d = map (include_all d) (gameTable d)"

section \<open>GameService\<close>

text \<open>Every method wraps its query in \<^verbatim>\<open>try\<close>/\<^verbatim>\<open>catch\<close> and rethrows an error as
  \<^verbatim>\<open>HttpException(error, INTERNAL_SERVER_ERROR)\<close>.\<close>

text \<open>\<^verbatim>\<open>findOne({ where: { id: id }, include: [{ all: true }] })\<close>: the column
  \<^verbatim>\<open>id\<close> is a uuid. The database compares it with a key; it has no operator
  that compares a uuid with an integer, and rejects the query for a number.\<close>

definition gameRepository_findOne_id ::
  "'i js_id \<Rightarrow> 'i db \<Rightarrow> db_error + 'i Game option" where
  "gameRepository_findOne_id i d =
     (case i of
        Key k \<Rightarrow> gameRepository_findOne (\<lambda>g. id_col g = k) d
      | Number n \<Rightarrow>
          (case fault d of
             Some e \<Rightarrow> Inl e
           | None \<Rightarrow> Inl (OperatorDoesNotExist ''uuid = integer'')))"

definition GameService_findById ::
  "'i js_id \<Rightarrow> 'i db \<Rightarrow> HttpException + 'i Game option" where
  "GameService_findById i d =
     (case gameRepository_findOne_id i d of
        Inl error \<Rightarrow> Inl (HttpException (Caught error) INTERNAL_SERVER_ERROR)
      | Inr ret \<Rightarrow> Inr ret)"

definition GameService_findOngoing ::
  "string \<Rightarrow> 'i db \<Rightarrow> HttpException + 'i Game list" where
  "GameService_findOngoing lgn d =
     (case gameRepository_findAll (\<lambda>g. status g = ''ongoing'') d of
        Inl error \<Rightarrow> Inl (HttpException (Caught error) INTERNAL_SERVER_ERROR)
      | Inr ret \<Rightarrow>
          Inr (filter (\<lambda>game. list_ex (\<lambda>user. login user = lgn) (users game)) ret))"

definition GameService_findByPlayer ::
  "string \<Rightarrow> bool \<Rightarrow> 'i db \<Rightarrow> HttpException + 'i Game list" where
  "GameService_findByPlayer lgn ranked d =
     (case gameRepository_findAll
             (if ranked then (\<lambda>g. isRanked g = ranked) else (\<lambda>g. True)) d of
        Inl error \<Rightarrow> Inl (HttpException (Caught error) INTERNAL_SERVER_ERROR)
      | Inr ret \<Rightarrow>
          Inr (filter (\<lambda>game. list_ex (\<lambda>user. login user = lgn) (users game)) ret))"

definition GameService_findWaiting ::
  "bool \<Rightarrow> 'i db \<Rightarrow> HttpException + 'i Game option" where
  "GameService_findWaiting ranked d =
     (case gameRepository_findOne
             (\<lambda>g. status g = ''waiting'' \<and> isRanked g = ranked) d of
        Inl error \<Rightarrow> Inl (HttpException (Caught error) INTERNAL_SERVER_ERROR)
      | Inr ret \<Rightarrow> Inr ret)"

definition GameService_findPlayable ::
  "string \<Rightarrow> 'i db \<Rightarrow> HttpException + 'i Game list" where
  "GameService_findPlayable lgn d =
     (case gameRepository_findAll
             (\<lambda>g. status g = ''waiting'' \<or> status g = ''invitation'') d of
        Inl err \<Rightarrow> Inl (HttpException (Caught err) INTERNAL_SERVER_ERROR)
      | Inr ret \<Rightarrow>
          Inr (filter (\<lambda>game.
                  list_ex (\<lambda>user. login user = lgn) (users game)
                  \<or> invitee game = Some lgn
                  \<or> (length (users game) < 2 \<and> status game \<noteq> ''invitation''))
                ret))"

text \<open>\<^verbatim>\<open>game.dto.ts\<close> is not among the sources. A \<^verbatim>\<open>GameDto\<close> is taken to carry
  the columns of a game, each of them possibly undefined (\<open>None\<close>), and the
  users to associate.\<close>

record 'i GameDto =
  id_dto :: "'i option"
  isRanked_dto :: "bool option"
  status_dto :: "string option"
  invitee_dto :: "string option"
  users_dto :: "User list"

text \<open>\<^verbatim>\<open>gameRepository.create(gameDto)\<close> inserts a row under the constraints
  that \<^verbatim>\<open>game.entity.ts\<close> declares: \<^verbatim>\<open>isRanked\<close> and \<^verbatim>\<open>status\<close> have
  \<^verbatim>\<open>allowNull: false\<close>, \<^verbatim>\<open>status\<close> has the \<^verbatim>\<open>ENUM\<close> type and \<^verbatim>\<open>id\<close> is the
  primary key, with the default \<^verbatim>\<open>DataType.UUIDV4\<close>: the key drawn when the dto
  gives none is the parameter \<open>fresh\<close>.\<close>

definition gameRepository_create ::
  "'i \<Rightarrow> 'i GameDto \<Rightarrow> 'i db \<Rightarrow> db_error + ('i GameRow \<times> 'i db)" where
  "gameRepository_create fresh v d =
     (case fault d of
        Some e \<Rightarrow> Inl e
      | None \<Rightarrow>
          (case isRanked_dto v of
             None \<Rightarrow> Inl (NotNullViolation ''isRanked'')
           | Some r \<Rightarrow>
               (case status_dto v of
                  None \<Rightarrow> Inl (NotNullViolation ''status'')
                | Some s \<Rightarrow>
                    if s \<notin> set Game_status_values
                    then Inl (InvalidEnumValue ''status'')
                    else
                      let i = (case id_dto v of None \<Rightarrow> fresh | Some j \<Rightarrow> j) in
                      if i \<in> set (map id_col (gameTable d))
                      then Inl (UniqueViolation ''id'')
                      else
                        let row = \<lparr> id_col = i, isRanked = r, status = s,
                                    invitee = invitee_dto v \<rparr>
                        in Inr (row, d\<lparr> gameTable := gameTable d @ [row] \<rparr>))))"

text \<open>Modelled from the spec: \<^verbatim>\<open>user-game.entity.ts\<close> is not among the sources,
  so they do not tell the score of a user-game row that is inserted without one.
  A slot's score counts the points of its player, from 0 to 11: a new slot has
  score 0, the score with which the controller creates one.\<close>

definition default_score :: int where
  "default_score = 0"

text \<open>\<^verbatim>\<open>ret.$add('users', users)\<close> links the users to the game by new rows of the
  table \<^verbatim>\<open>UserGame\<close>, which carry no score of their own.\<close>

definition add_users :: "'i \<Rightarrow> User list \<Rightarrow> 'i db \<Rightarrow> db_error + 'i db" where
  "add_users i us d =
     (case fault d of
        Some e \<Rightarrow> Inl e
      | None \<Rightarrow>
          Inr (d\<lparr> userGameTable := userGameTable d
                   @ map (\<lambda>u. \<lparr> userLogin = login u, gameId = i, score = default_score \<rparr>) us \<rparr>))"

text \<open>The columns an update sets: those the values define.\<close>

definition set_cols :: "'i GameDto \<Rightarrow> 'i GameRow \<Rightarrow> 'i GameRow" where
  "set_cols v g =
     \<lparr> id_col = (case id_dto v of None \<Rightarrow> id_col g | Some j \<Rightarrow> j),
       isRanked = (case isRanked_dto v of None \<Rightarrow> isRanked g | Some r \<Rightarrow> r),
       status = (case status_dto v of None \<Rightarrow> status g | Some s \<Rightarrow> s),
       invitee = (case invitee_dto v of None \<Rightarrow> invitee g | Some x \<Rightarrow> Some x) \<rparr>"

text \<open>\<^verbatim>\<open>gameRepository.update(values, { where: { id } })\<close>: rejected when the id of
  the \<^verbatim>\<open>where\<close> clause is undefined or a value breaks the type of its column;
  otherwise the rows with that id are updated and counted.\<close>

definition gameRepository_update ::
  "'i GameDto \<Rightarrow> 'i option \<Rightarrow> 'i db \<Rightarrow> db_error + (nat \<times> 'i db)" where
  "gameRepository_update v wid d =
     (case fault d of
        Some e \<Rightarrow> Inl e
      | None \<Rightarrow>
          (case wid of
             None \<Rightarrow> Inl (UndefinedWhereValue ''id'')
           | Some i \<Rightarrow>
               if (case status_dto v of None \<Rightarrow> False
                   | Some s \<Rightarrow> s \<notin> set Game_status_values)
               then Inl (InvalidEnumValue ''status'')
               else Inr (length (filter (\<lambda>g. id_col g = i) (gameTable d)),
                         d\<lparr> gameTable :=
                              map (\<lambda>g. if id_col g = i then set_cols v g else g)
                                  (gameTable d) \<rparr>)))"

text \<open>\<^verbatim>\<open>GameService.create\<close>: the row, then the users; the object returned has
  \<^verbatim>\<open>dataValues.users = gameDto.users\<close>.\<close>

definition GameService_create ::
  "'i \<Rightarrow> 'i GameDto \<Rightarrow> 'i db \<Rightarrow> (HttpException + 'i Game) \<times> 'i db" where
  "GameService_create fresh gameDto d =
     (case gameRepository_create fresh gameDto d of
        Inl error \<Rightarrow> (Inl (HttpException (Caught error) INTERNAL_SERVER_ERROR), d)
      | Inr (ret, d1) \<Rightarrow>
          (case add_users (id_col ret) (users_dto gameDto) d1 of
             Inl error \<Rightarrow> (Inl (HttpException (Caught error) INTERNAL_SERVER_ERROR), d1)
           | Inr d2 \<Rightarrow>
               (Inr \<lparr> id_col = id_col ret, isRanked = isRanked ret, status = status ret,
                      invitee = invitee ret, users = users_dto gameDto \<rparr>, d2)))"

text \<open>\<^verbatim>\<open>GameService.update\<close> is
  \<^verbatim>\<open>return await this.gameRepository.update(gameDto, { where: { id: gameDto.id } })[0]\<close>:
  the index \<^verbatim>\<open>[0]\<close> is applied to the promise, not to its result, so the value
  awaited and returned is \<^verbatim>\<open>undefined\<close> (\<open>None\<close>) and an error of the update
  rejects a promise that nobody awaits: the \<^verbatim>\<open>catch\<close> never runs. The update
  itself is carried out when the database accepts it.\<close>

definition GameService_update ::
  "'i GameDto \<Rightarrow> 'i db \<Rightarrow> (HttpException + nat option) \<times> 'i db" where
  "GameService_update gameDto d =
     (Inr None,
      case gameRepository_update gameDto (id_dto gameDto) d of
        Inl error \<Rightarrow> d
      | Inr (n, d') \<Rightarrow> d')"

section \<open>UserService and UserGameService\<close>

text \<open>Modelled from the spec: \<^verbatim>\<open>user.service.ts\<close> is not among the sources.
  \<^verbatim>\<open>findByLogin\<close> is the identity lookup \<^verbatim>\<open>findPlayer(login)\<close>: the user
  with that login, or null.\<close>

definition UserService_findByLogin ::
  "string \<Rightarrow> 'i db \<Rightarrow> HttpException + User option" where
  "UserService_findByLogin lgn d =
     (case fault d of
        Some e \<Rightarrow> Inl (HttpException (Caught e) INTERNAL_SERVER_ERROR)
      | None \<Rightarrow> Inr (find (\<lambda>u. login u = lgn) (userTable d)))"

text \<open>Modelled from the spec: \<^verbatim>\<open>user-game.service.ts\<close> is not among the sources.
  It is the part of the match record store that persists the participants of a
  match and their scores as they are handed in. Its four methods are the plain
  data access that the doc comments of the controller describe: all user games of
  a game, the user game of a user and a game, a new user game, and the update of
  a user game's score, which returns the number of updated user games. The column
  \<^verbatim>\<open>gameId\<close> refers to the key of a game and is compared as that is.\<close>

definition UserGameService_findByGame ::
  "'i js_id \<Rightarrow> 'i db \<Rightarrow> HttpException + 'i UserGame list" where
  "UserGameService_findByGame i d =
     (case fault d of
        Some e \<Rightarrow> Inl (HttpException (Caught e) INTERNAL_SERVER_ERROR)
      | None \<Rightarrow>
          (case i of
             Key k \<Rightarrow> Inr (filter (\<lambda>ug. gameId ug = k) (userGameTable d))
           | Number n \<Rightarrow>
               Inl (HttpException (Caught (OperatorDoesNotExist ''uuid = integer''))
                      INTERNAL_SERVER_ERROR)))"

definition UserGameService_findByUserAndGame ::
  "'i Game \<Rightarrow> User \<Rightarrow> 'i db \<Rightarrow> HttpException + 'i UserGame option" where
  "UserGameService_findByUserAndGame game user d =
     (case fault d of
        Some e \<Rightarrow> Inl (HttpException (Caught e) INTERNAL_SERVER_ERROR)
      | None \<Rightarrow>
          Inr (find (\<lambda>ug. userLogin ug = login user \<and> gameId ug = id_col game)
                 (userGameTable d)))"

definition UserGameService_create ::
  "'i Game \<Rightarrow> User \<Rightarrow> int \<Rightarrow> 'i db \<Rightarrow> (HttpException + 'i UserGame) \<times> 'i db" where
  "UserGameService_create game user sc d =
     (case fault d of
        Some e \<Rightarrow> (Inl (HttpException (Caught e) INTERNAL_SERVER_ERROR), d)
      | None \<Rightarrow>
          (let row = \<lparr> userLogin = login user, gameId = id_col game, score = sc \<rparr>
           in (Inr row, d\<lparr> userGameTable := userGameTable d @ [row] \<rparr>)))"

definition UserGameService_update ::
  "'i Game \<Rightarrow> int \<Rightarrow> User \<Rightarrow> 'i db \<Rightarrow> (HttpException + nat) \<times> 'i db" where
  "UserGameService_update game sc user d =
     (case fault d of
        Some e \<Rightarrow> (Inl (HttpException (Caught e) INTERNAL_SERVER_ERROR), d)
      | None \<Rightarrow>
          (Inr (length (filter (\<lambda>ug. userLogin ug = login user \<and> gameId ug = id_col game)
                          (userGameTable d))),
           d\<lparr> userGameTable :=
                map (\<lambda>ug. if userLogin ug = login user \<and> gameId ug = id_col game
                          then ug\<lparr> score := sc \<rparr> else ug)
                    (userGameTable d) \<rparr>))"

section \<open>UserGameController\<close>

text \<open>The bodies of \<^verbatim>\<open>create\<close> and \<^verbatim>\<open>update\<close>, guard by guard. A body
  parameter that is missing and one that is the empty string both fail the test
  \<^verbatim>\<open>!userLogin\<close>; both are the empty string here. \<^verbatim>\<open>ParseIntPipe\<close> has
  made \<^verbatim>\<open>gameId\<close>, \<^verbatim>\<open>id\<close> and \<^verbatim>\<open>score\<close> integers before the body runs,
  and it is that number which the bodies hand to \<^verbatim>\<open>gameService.findById\<close> and
  \<^verbatim>\<open>userGameService.findByGame\<close>.\<close>

definition UserGameController_create ::
  "string \<Rightarrow> int \<Rightarrow> 'i db \<Rightarrow> (HttpException + 'i UserGame) \<times> 'i db" where
  "UserGameController_create userLogin' gameId' d =
     (if userLogin' = [] then (Inl (HttpException (Message ''Missing parameters'') BAD_REQUEST), d)
      else
        case UserService_findByLogin userLogin' d of
          Inl e \<Rightarrow> (Inl e, d)
        | Inr None \<Rightarrow> (Inl (HttpException (Message ''User Not Found'') NOT_FOUND), d)
        | Inr (Some user) \<Rightarrow>
            (case GameService_findById (Number gameId') d of
               Inl e \<Rightarrow> (Inl e, d)
             | Inr None \<Rightarrow> (Inl (HttpException (Message ''Game Not Found'') NOT_FOUND), d)
             | Inr (Some game) \<Rightarrow>
                 (case UserGameService_findByGame (Number gameId') d of
                    Inl e \<Rightarrow> (Inl e, d)
                  | Inr user_games \<Rightarrow>
                      if length user_games \<ge> 2
                      then (Inl (HttpException (Message ''Game is full'') CONFLICT), d)
                      else if find (\<lambda>user_game. userLogin user_game = userLogin') user_games
                              \<noteq> None
                      then (Inl (HttpException (Message ''User already in game'') CONFLICT), d)
                      else UserGameService_create game user 0 d)))"

definition UserGameController_update ::
  "int \<Rightarrow> string \<Rightarrow> int \<Rightarrow> 'i db \<Rightarrow> (HttpException + nat) \<times> 'i db" where
  "UserGameController_update i lgn sc d =
     (if lgn = [] then (Inl (HttpException (Message ''Missing parameters'') BAD_REQUEST), d)
      else
        case UserService_findByLogin lgn d of
          Inl e \<Rightarrow> (Inl e, d)
        | Inr None \<Rightarrow> (Inl (HttpException (Message ''User Not Found'') NOT_FOUND), d)
        | Inr (Some user) \<Rightarrow>
            (case GameService_findById (Number i) d of
               Inl e \<Rightarrow> (Inl e, d)
             | Inr None \<Rightarrow> (Inl (HttpException (Message ''Game Not Found'') NOT_FOUND), d)
             | Inr (Some game) \<Rightarrow>
                 (case UserGameService_findByUserAndGame game user d of
                    Inl e \<Rightarrow> (Inl e, d)
                  | Inr None \<Rightarrow> (Inl (HttpException (Message ''UserGame Not Found'') NOT_FOUND), d)
                  | Inr (Some ug) \<Rightarrow> UserGameService_update game sc user d)))"

section \<open>AuthService\<close>

text \<open>\<^verbatim>\<open>async verifyTOTP(totp: number, A2FSecret: string): Promise<boolean>\<close>
  has the body \<^verbatim>\<open>return true;\<close>. The number is left as a type parameter.\<close>

definition verifyTOTP :: "'n \<Rightarrow> string \<Rightarrow> bool" where
  "verifyTOTP totp A2FSecret = True"

section \<open>Stated properties\<close>

text \<open>The occupant slots of a game: the user-game rows linked to it.\<close>

definition slots :: "'i db \<Rightarrow> 'i \<Rightarrow> 'i UserGame list" where
  "slots d i = filter (\<lambda>ug. gameId ug = i) (userGameTable d)"

text \<open>A candidate for \<^verbatim>\<open>findWaiting(isRanked)\<close>: a waiting game of that mode.\<close>

definition is_candidate :: "bool \<Rightarrow> ('i, 'm) GameRow_scheme \<Rightarrow> bool" where
  "is_candidate r g = (status g = ''waiting'' \<and> isRanked g = r)"

text \<open>The game \<open>g\<close> is a candidate and no candidate was created before it. No
  column read by the sources records when a game was created; \<open>created\<close> gives
  the time at which the game with a given id was.\<close>

definition oldest_candidate :: "('i \<Rightarrow> nat) \<Rightarrow> bool \<Rightarrow> 'i db \<Rightarrow> 'i Game \<Rightarrow> bool" where
  "oldest_candidate created r d g =
     (is_candidate r g \<and>
      list_all (\<lambda>g'. \<not> is_candidate r g' \<or> created (id_col g) \<le> created (id_col g'))
        (stored_games d))"



text \<open>The databases that the operations modelled here reach from one without
  games: users come and go and the database fails and recovers (the environment),
  games are created and updated through \<^verbatim>\<open>GameService\<close>, and requests reach
  \<^verbatim>\<open>create\<close> and \<^verbatim>\<open>update\<close> of \<^verbatim>\<open>UserGameController\<close>.\<close>

inductive reachable :: "'i db \<Rightarrow> bool" where
  start: "reachable \<lparr> userTable = us, gameTable = [], userGameTable = [], fault = f \<rparr>"
| environment: "reachable d \<Longrightarrow> reachable (d\<lparr> userTable := us, fault := f \<rparr>)"
| game_create: "reachable d \<Longrightarrow> reachable (snd (GameService_create fresh gameDto d))"
| game_update: "reachable d \<Longrightarrow> reachable (snd (GameService_update gameDto d))"
| user_game_create: "reachable d \<Longrightarrow> reachable (snd (UserGameController_create l g d))"
| user_game_update: "reachable d \<Longrightarrow> reachable (snd (UserGameController_update i l s d))"

section \<open>Example database\<close>

definition alice :: User where "alice = \<lparr> login = ''alice'' \<rparr>"
definition bob :: User where "bob = \<lparr> login = ''bob'' \<rparr>"
definition carol :: User where "carol = \<lparr> login = ''carol'' \<rparr>"

definition db1 :: "nat db" where
  "db1 = \<lparr> userTable = [alice, bob, carol],
           gameTable =
             [ \<lparr> id_col = 1, isRanked = True, status = ''ongoing'', invitee = None \<rparr>,
               \<lparr> id_col = 2, isRanked = False, status = ''ongoing'', invitee = None \<rparr>,
               \<lparr> id_col = 3, isRanked = False, status = ''finished'', invitee = None \<rparr>,
               \<lparr> id_col = 4, isRanked = False, status = ''invitation'', invitee = Some ''carol'' \<rparr>,
               \<lparr> id_col = 5, isRanked = True, status = ''waiting'', invitee = None \<rparr> ],
           userGameTable =
             [ \<lparr> userLogin = ''alice'', gameId = 1, score = 3 \<rparr>,
               \<lparr> userLogin = ''bob'', gameId = 1, score = 5 \<rparr>,
               \<lparr> userLogin = ''bob'', gameId = 2, score = 0 \<rparr>,
               \<lparr> userLogin = ''carol'', gameId = 2, score = 0 \<rparr>,
               \<lparr> userLogin = ''alice'', gameId = 3, score = 11 \<rparr>,
               \<lparr> userLogin = ''carol'', gameId = 3, score = 4 \<rparr>,
               \<lparr> userLogin = ''bob'', gameId = 4, score = 0 \<rparr>,
               \<lparr> userLogin = ''bob'', gameId = 5, score = 0 \<rparr> ],
           fault = None \<rparr>"

text \<open>Two waiting ranked games; the database returns the game 7 before the
  game 6.\<close>

definition db2 :: "nat db" where
  "db2 = \<lparr> userTable = [alice, bob],
           gameTable =
             [ \<lparr> id_col = 7, isRanked = True, status = ''waiting'', invitee = None \<rparr>,
               \<lparr> id_col = 6, isRanked = True, status = ''waiting'', invitee = None \<rparr> ],
           userGameTable =
             [ \<lparr> userLogin = ''alice'', gameId = 6, score = 0 \<rparr>,
               \<lparr> userLogin = ''bob'', gameId = 7, score = 0 \<rparr> ],
           fault = None \<rparr>"

text \<open>A run from a database without games: a game is created for two users and
  then set to \<^verbatim>\<open>finished\<close>; \<open>db3\<close> is the outcome.\<close>

definition db0 :: "nat db" where
  "db0 = \<lparr> userTable = [alice, bob], gameTable = [], userGameTable = [], fault = None \<rparr>"

definition dto_new :: "nat GameDto" where
  "dto_new = \<lparr> id_dto = None, isRanked_dto = Some False, status_dto = Some ''waiting'',
               invitee_dto = None, users_dto = [alice, bob] \<rparr>"

definition dto_finish :: "nat GameDto" where
  "dto_finish = \<lparr> id_dto = Some 1, isRanked_dto = None, status_dto = Some ''finished'',
                  invitee_dto = None, users_dto = [] \<rparr>"

definition dto_paused :: "nat GameDto" where
  "dto_paused = \<lparr> id_dto = Some 1, isRanked_dto = Some False, status_dto = Some ''paused'',
                  invitee_dto = None, users_dto = [] \<rparr>"

definition db3 :: "nat db" where
  "db3 = \<lparr> userTable = [alice, bob],
           gameTable = [ \<lparr> id_col = 1, isRanked = False, status = ''finished'', invitee = None \<rparr> ],
           userGameTable =
             [ \<lparr> userLogin = ''alice'', gameId = 1, score = 0 \<rparr>,
               \<lparr> userLogin = ''bob'', gameId = 1, score = 0 \<rparr> ],
           fault = None \<rparr>"

text \<open>Five games in the order of their creation, waiting ones of both modes
  among them.\<close>

definition db4 :: "nat db" where
  "db4 = \<lparr> userTable = [alice, bob],
           gameTable =
             [ \<lparr> id_col = 1, isRanked = False, status = ''waiting'', invitee = None \<rparr>,
               \<lparr> id_col = 2, isRanked = True, status = ''ongoing'', invitee = None \<rparr>,
               \<lparr> id_col = 3, isRanked = True, status = ''waiting'', invitee = None \<rparr>,
               \<lparr> id_col = 4, isRanked = False, status = ''waiting'', invitee = None \<rparr>,
               \<lparr> id_col = 5, isRanked = True, status = ''waiting'', invitee = None \<rparr> ],
           userGameTable =
             [ \<lparr> userLogin = ''alice'', gameId = 1, score = 0 \<rparr>,
               \<lparr> userLogin = ''bob'', gameId = 3, score = 0 \<rparr> ],
           fault = None \<rparr>"

text \<open>A database with keys as the entity declares them. The game \<open>game_a\<close> was
  created for alice and bob (\<open>db5\<close> is the outcome of that on \<open>db5_start\<close>), so
  both of its slots are taken; carol is a user without a game.\<close>

definition game_a :: string where
  "game_a = ''0b9f7c1e-5d2a-4e83-9c46-7a1d3f20b8e5''"

definition game_b :: string where
  "game_b = ''c4a1e6d2-83f7-4b09-a5d1-2e9b7f603c14''"



definition dto_three :: "string GameDto" where
  "dto_three = \<lparr> id_dto = None, isRanked_dto = Some False, status_dto = Some ''waiting'',
                 invitee_dto = None, users_dto = [alice, bob, carol] \<rparr>"

definition db5 :: "string db" where
  "db5 = \<lparr> userTable = [alice, bob, carol],
           gameTable = [ \<lparr> id_col = game_a, isRanked = True, status = ''ongoing'',
                           invitee = None \<rparr> ],
           userGameTable =
             [ \<lparr> userLogin = ''alice'', gameId = game_a, score = 0 \<rparr>,
               \<lparr> userLogin = ''bob'', gameId = game_a, score = 0 \<rparr> ],
           fault = None \<rparr>"

section \<open>Properties\<close>

lemma include_all_cols [simp]:
  "id_col (include_all d row) = id_col row"
  "isRanked (include_all d row) = isRanked row"
  "status (include_all d row) = status row"
  "invitee (include_all d row) = invitee row"
  by (simp_all add: include_all_def)

lemma list_ex_login: "list_ex (\<lambda>user. login user = l) us \<longleftrightarrow> l \<in> set (map login us)"
  by (auto simp: list_ex_iff)

text \<open>Claim C8. \<^verbatim>\<open>AuthService.verifyTOTP\<close> returns true for every one-time
  password and every secret: the second factor is accepted unconditionally.\<close>

theorem verifyTOTP_always_true: "verifyTOTP totp A2FSecret = True"
  by (simp add: verifyTOTP_def)

text \<open>Claim C3. \<^verbatim>\<open>GameService.findOngoing(login)\<close> fails with status 500 when the
  database rejects the query, and otherwise returns the stored games whose status
  is \<^verbatim>\<open>ongoing\<close> and whose users include one with that login: a game is in the
  result exactly when it is such a game.\<close>

theorem findOngoing_exact:
  "GameService_findOngoing l d =
     (case fault d of
        Some e \<Rightarrow> Inl (HttpException (Caught e) INTERNAL_SERVER_ERROR)
      | None \<Rightarrow> Inr (filter (\<lambda>g. status g = ''ongoing'' \<and> l \<in> set (map login (users g)))
                       (stored_games d)))
   \<and> (\<forall>gs g. GameService_findOngoing l d = Inr gs \<longrightarrow>
         (g \<in> set gs \<longleftrightarrow>
            g \<in> set (stored_games d) \<and> status g = ''ongoing''
            \<and> l \<in> set (map login (users g))))"
proof -
  have eq: "GameService_findOngoing l d =
     (case fault d of
        Some e \<Rightarrow> Inl (HttpException (Caught e) INTERNAL_SERVER_ERROR)
      | None \<Rightarrow> Inr (filter (\<lambda>g. status g = ''ongoing'' \<and> l \<in> set (map login (users g)))
                       (stored_games d)))"
    by (simp add: GameService_findOngoing_def gameRepository_findAll_def stored_games_def
          list_ex_login filter_map comp_def conj_commute split: option.split)
  show ?thesis
    unfolding eq by (auto split: option.splits)
qed


theorem findOngoing_exact_witness:
  "fault db1 = None
   \<and> GameService_findOngoing ''alice'' db1 =
       Inr [\<lparr> id_col = 1, isRanked = True, status = ''ongoing'', invitee = None,
              users = [alice, bob] \<rparr>]"
proof -
  have f: "fault db1 = None" by (simp add: db1_def)
  show ?thesis
    using f findOngoing_exact[of "''alice''" db1]
    by (simp add: stored_games_def db1_def include_all_def alice_def bob_def carol_def)
qed

subsection \<open>The user-game controller\<close>

text \<open>\<^verbatim>\<open>findById\<close> answers a number with status 500, whatever the database
  holds.\<close>

lemma findById_Number:
  "GameService_findById (Number n) d =
     Inl (HttpException
            (Caught (case fault d of
                       None \<Rightarrow> OperatorDoesNotExist ''uuid = integer''
                     | Some e \<Rightarrow> e))
            INTERNAL_SERVER_ERROR)"
  by (simp add: GameService_findById_def gameRepository_findOne_id_def split: option.split)

lemma find_login_Some:
  "l \<in> set (map login us) \<Longrightarrow> \<exists>u. find (\<lambda>u. login u = l) us = Some u"
  by (cases "find (\<lambda>u. login u = l) us") (auto simp: find_None_iff)

text \<open>So neither \<^verbatim>\<open>create\<close> nor \<^verbatim>\<open>update\<close> gets past \<^verbatim>\<open>findById\<close>: both
  fail and leave the database as it is.\<close>

lemma create_cases:
  "UserGameController_create l n d = (r, d') \<Longrightarrow>
     d' = d \<and> (\<exists>e. r = Inl e)
     \<and> r \<noteq> Inl (HttpException (Message ''Game is full'') CONFLICT)"
  unfolding UserGameController_create_def
  by (auto simp: findById_Number UserService_findByLogin_def
      split: if_splits sum.splits option.splits)

lemma update_cases:
  "UserGameController_update n l s d = (r, d') \<Longrightarrow> d' = d \<and> (\<exists>e. r = Inl e)"
  unfolding UserGameController_update_def
  by (auto simp: findById_Number split: if_splits sum.splits option.splits)

lemma create_known_user:
  assumes f: "fault d = None" and ne: "l \<noteq> []"
    and lu: "l \<in> set (map login (userTable d))"
  shows "UserGameController_create l n d
           = (Inl (HttpException (Caught (OperatorDoesNotExist ''uuid = integer''))
                     INTERNAL_SERVER_ERROR), d)"
proof -
  from find_login_Some[OF lu]
  obtain u where u: "find (\<lambda>u. login u = l) (userTable d) = Some u" ..
  have 1: "UserService_findByLogin l d = Inr (Some u)"
    using f u by (simp add: UserService_findByLogin_def)
  show ?thesis
    using ne f by (simp add: UserGameController_create_def 1 findById_Number)
qed




text \<open>Claim C1, on the code. \<^verbatim>\<open>UserGameController.create\<close> adds no user-game
  row and fails, whatever its arguments and whatever the database holds, but it
  never fails with Conflict (\<^verbatim>\<open>Game is full\<close>): when the database answers and
  the login is that of a user, it fails with status 500, because
  \<^verbatim>\<open>findById\<close> is asked for the number \<^verbatim>\<open>gameId\<close> and the database cannot
  compare the uuid key of a game with it. The test for two user-games is never
  reached.\<close>

theorem create_never_answers_full:
  "snd (UserGameController_create l n d) = d
   \<and> (\<exists>e. fst (UserGameController_create l n d) = Inl e)
   \<and> fst (UserGameController_create l n d)
       \<noteq> Inl (HttpException (Message ''Game is full'') CONFLICT)
   \<and> (fault d = None \<and> l \<noteq> [] \<and> l \<in> set (map login (userTable d)) \<longrightarrow>
        fst (UserGameController_create l n d)
          = Inl (HttpException (Caught (OperatorDoesNotExist ''uuid = integer''))
                   INTERNAL_SERVER_ERROR))"
proof -
  obtain r d' where rd: "UserGameController_create l n d = (r, d')"
    by (cases "UserGameController_create l n d")
  from create_cases[OF rd] create_known_user[of d l n] show ?thesis
    by (auto simp: rd)
qed

text \<open>In the second example the game \<open>game_a\<close> has two user-games, and carol's
  request is answered with status 500.\<close>

theorem create_never_answers_full_witness:
  "length (slots db5 game_a) = 2
   \<and> fault db5 = None \<and> ''carol'' \<noteq> [] \<and> ''carol'' \<in> set (map login (userTable db5))
   \<and> UserGameController_create ''carol'' 1 db5
       = (Inl (HttpException (Caught (OperatorDoesNotExist ''uuid = integer''))
                 INTERNAL_SERVER_ERROR), db5)"
proof -
  have s: "length (slots db5 game_a) = 2"
    by (simp add: slots_def db5_def)
  have h: "fault db5 = None \<and> ''carol'' \<noteq> [] \<and> ''carol'' \<in> set (map login (userTable db5))"
    by (simp add: db5_def alice_def bob_def carol_def)
  show ?thesis
    using s h create_never_answers_full[of "''carol''" 1 db5]
    by (metis prod.collapse)
qed

text \<open>\<^verbatim>\<open>GameService.create\<close> for its part links every user of the dto to the new
  game, however many they are: a game created for alice, bob and carol has three
  user-games.\<close>

lemma game_create_three_slots:
  "length (slots (snd (GameService_create game_b dto_three db5)) game_b) = 3"
  by (simp add: GameService_create_def gameRepository_create_def add_users_def
      Game_status_values_def default_score_def dto_three_def db5_def slots_def
      game_a_def game_b_def Let_def)

subsection \<open>The queries of GameService\<close>


lemma findByPlayer_eq:
  "GameService_findByPlayer l r d =
     (case fault d of
        Some e \<Rightarrow> Inl (HttpException (Caught e) INTERNAL_SERVER_ERROR)
      | None \<Rightarrow> Inr (filter (\<lambda>g. (r \<longrightarrow> isRanked g) \<and> l \<in> set (map login (users g)))
                       (stored_games d)))"
  by (cases r)
     (simp_all add: GameService_findByPlayer_def gameRepository_findAll_def stored_games_def
          list_ex_login filter_map comp_def conj_commute split: option.split)

text \<open>Claim C10. \<^verbatim>\<open>GameService.findByPlayer(login, true)\<close> returns the games of
  that player that are ranked, and only those; \<^verbatim>\<open>findByPlayer(login, false)\<close>
  returns all the games of that player, ranked or not: the \<^verbatim>\<open>where\<close> clause is
  empty when the argument is false.\<close>

theorem findByPlayer_asymmetric:
  "GameService_findByPlayer l True d =
     (case fault d of
        Some e \<Rightarrow> Inl (HttpException (Caught e) INTERNAL_SERVER_ERROR)
      | None \<Rightarrow> Inr (filter (\<lambda>g. isRanked g \<and> l \<in> set (map login (users g)))
                       (stored_games d)))
   \<and> GameService_findByPlayer l False d =
     (case fault d of
        Some e \<Rightarrow> Inl (HttpException (Caught e) INTERNAL_SERVER_ERROR)
      | None \<Rightarrow> Inr (filter (\<lambda>g. l \<in> set (map login (users g))) (stored_games d)))
   \<and> (\<forall>gs g. GameService_findByPlayer l True d = Inr gs \<longrightarrow>
         (g \<in> set gs \<longleftrightarrow>
            g \<in> set (stored_games d) \<and> l \<in> set (map login (users g)) \<and> isRanked g))
   \<and> (\<forall>gs g. GameService_findByPlayer l False d = Inr gs \<longrightarrow>
         (g \<in> set gs \<longleftrightarrow>
            g \<in> set (stored_games d) \<and> l \<in> set (map login (users g))))"
proof -
  have t: "GameService_findByPlayer l True d =
     (case fault d of
        Some e \<Rightarrow> Inl (HttpException (Caught e) INTERNAL_SERVER_ERROR)
      | None \<Rightarrow> Inr (filter (\<lambda>g. isRanked g \<and> l \<in> set (map login (users g)))
                       (stored_games d)))"
    by (simp add: findByPlayer_eq split: option.split)
  have f: "GameService_findByPlayer l False d =
     (case fault d of
        Some e \<Rightarrow> Inl (HttpException (Caught e) INTERNAL_SERVER_ERROR)
      | None \<Rightarrow> Inr (filter (\<lambda>g. l \<in> set (map login (users g))) (stored_games d)))"
    by (simp add: findByPlayer_eq split: option.split)
  show ?thesis
    unfolding t f by (auto split: option.splits)
qed

theorem findByPlayer_asymmetric_witness:
  "GameService_findByPlayer ''bob'' True db1 =
     Inr [ \<lparr> id_col = 1, isRanked = True, status = ''ongoing'', invitee = None,
              users = [alice, bob] \<rparr>,
           \<lparr> id_col = 5, isRanked = True, status = ''waiting'', invitee = None,
              users = [bob] \<rparr> ]
   \<and> GameService_findByPlayer ''bob'' False db1 =
     Inr [ \<lparr> id_col = 1, isRanked = True, status = ''ongoing'', invitee = None,
              users = [alice, bob] \<rparr>,
           \<lparr> id_col = 2, isRanked = False, status = ''ongoing'', invitee = None,
              users = [bob, carol] \<rparr>,
           \<lparr> id_col = 4, isRanked = False, status = ''invitation'', invitee = Some ''carol'',
              users = [bob] \<rparr>,
           \<lparr> id_col = 5, isRanked = True, status = ''waiting'', invitee = None,
              users = [bob] \<rparr> ]"
  using findByPlayer_asymmetric[of "''bob''" db1]
  by (simp add: stored_games_def db1_def include_all_def alice_def bob_def carol_def)

lemma findPlayable_eq:
  "GameService_findPlayable l d =
     (case fault d of
        Some e \<Rightarrow> Inl (HttpException (Caught e) INTERNAL_SERVER_ERROR)
      | None \<Rightarrow>
          Inr (filter (\<lambda>g. (status g = ''waiting'' \<or> status g = ''invitation'')
                        \<and> (l \<in> set (map login (users g)) \<or> invitee g = Some l
                            \<or> (length (users g) < 2 \<and> status g \<noteq> ''invitation'')))
                 (stored_games d)))"
  by (simp add: GameService_findPlayable_def gameRepository_findAll_def stored_games_def
        list_ex_login filter_map comp_def conj_commute split: option.split)

text \<open>Claim C9. \<^verbatim>\<open>GameService.findPlayable(login)\<close> returns a result when the
  database answers; every game it returns has status \<^verbatim>\<open>waiting\<close> or
  \<^verbatim>\<open>invitation\<close> and either has the login among its users, or has it as
  invitee, or has fewer than two users and is not an invitation. So an invitation
  is never returned for a login that is neither its invitee nor one of its
  users.\<close>

theorem findPlayable_sound:
  "(fault d = None \<longrightarrow> (\<exists>gs. GameService_findPlayable l d = Inr gs))
   \<and> (\<forall>gs g. GameService_findPlayable l d = Inr gs \<and> g \<in> set gs \<longrightarrow>
         (status g = ''waiting'' \<or> status g = ''invitation'')
         \<and> (l \<in> set (map login (users g)) \<or> invitee g = Some l
             \<or> (length (users g) < 2 \<and> status g \<noteq> ''invitation'')))
   \<and> (\<forall>gs g. GameService_findPlayable l d = Inr gs \<and> status g = ''invitation''
          \<and> invitee g \<noteq> Some l \<and> l \<notin> set (map login (users g)) \<longrightarrow> g \<notin> set gs)"
  unfolding findPlayable_eq by (auto split: option.splits)

theorem findPlayable_sound_witness:
  "fault db1 = None
   \<and> GameService_findPlayable ''alice'' db1 =
       Inr [\<lparr> id_col = 5, isRanked = True, status = ''waiting'', invitee = None,
              users = [bob] \<rparr>]
   \<and> \<lparr> id_col = 4, isRanked = False, status = ''invitation'', invitee = Some ''carol'',
        users = [bob] \<rparr> \<in> set (stored_games db1)
   \<and> GameService_findPlayable ''carol'' db1 =
       Inr [\<lparr> id_col = 4, isRanked = False, status = ''invitation'', invitee = Some ''carol'',
              users = [bob] \<rparr>,
            \<lparr> id_col = 5, isRanked = True, status = ''waiting'', invitee = None,
              users = [bob] \<rparr>]"
proof -
  have f: "fault db1 = None" by (simp add: db1_def)
  have a: "GameService_findPlayable ''alice'' db1 =
       Inr [\<lparr> id_col = 5, isRanked = True, status = ''waiting'', invitee = None,
              users = [bob] \<rparr>]"
    by (simp add: findPlayable_eq stored_games_def db1_def include_all_def
        alice_def bob_def carol_def)
  have c: "GameService_findPlayable ''carol'' db1 =
       Inr [\<lparr> id_col = 4, isRanked = False, status = ''invitation'', invitee = Some ''carol'',
              users = [bob] \<rparr>,
            \<lparr> id_col = 5, isRanked = True, status = ''waiting'', invitee = None,
              users = [bob] \<rparr>]"
    by (simp add: findPlayable_eq stored_games_def db1_def include_all_def
        alice_def bob_def carol_def)
  have s: "\<lparr> id_col = 4, isRanked = False, status = ''invitation'', invitee = Some ''carol'',
        users = [bob] \<rparr> \<in> set (stored_games db1)"
    by (simp add: stored_games_def db1_def include_all_def alice_def bob_def carol_def)
  show ?thesis
    using f a c s findPlayable_sound[of db1 "''alice''"] by blast
qed


lemma find_map_opt: "find P (map f xs) = map_option f (find (\<lambda>x. P (f x)) xs)"
  by (induction xs) auto

lemma find_sorted_least:
  "sorted_wrt (\<lambda>a b. k a \<le> (k b :: nat)) xs \<Longrightarrow> find P xs = Some x \<Longrightarrow>
     y \<in> set xs \<Longrightarrow> P y \<Longrightarrow> k x \<le> k y"
  by (induction xs) (auto split: if_splits)

lemma findWaiting_eq: 
  "GameService_findWaiting r d =
     (case fault d of
        Some e \<Rightarrow> Inl (HttpException (Caught e) INTERNAL_SERVER_ERROR)
      | None \<Rightarrow> Inr (find (is_candidate r) (stored_games d)))"
  by (simp add: GameService_findWaiting_def gameRepository_findOne_def stored_games_def
       find_map_opt is_candidate_def split: option.split)

text \<open>Claim C6, as amended. \<^verbatim>\<open>GameService.findWaiting(isRanked)\<close> returns, when
  the database answers, the first game in the order of the database's answer that
  has status \<^verbatim>\<open>waiting\<close> and the requested \<^verbatim>\<open>isRanked\<close> flag, and null when
  there is none: ranked and casual are never mixed, and a waiting game of the mode
  is found whenever one exists. When the database answers in the order of
  creation, the game selected is the oldest candidate.\<close>

theorem findWaiting_first_candidate:
  "GameService_findWaiting r d =
     (case fault d of
        Some e \<Rightarrow> Inl (HttpException (Caught e) INTERNAL_SERVER_ERROR)
      | None \<Rightarrow> Inr (find (is_candidate r) (stored_games d)))
   \<and> (\<forall>g. GameService_findWaiting r d = Inr (Some g) \<longrightarrow>
         g \<in> set (stored_games d) \<and> status g = ''waiting'' \<and> isRanked g = r)
   \<and> (fault d = None \<and> list_ex (is_candidate r) (stored_games d) \<longrightarrow>
         (\<exists>g. GameService_findWaiting r d = Inr (Some g)))
   \<and> (\<forall>g. sorted_wrt (\<lambda>a b. created (id_col a) \<le> created (id_col b)) (gameTable d)
          \<and> GameService_findWaiting r d = Inr (Some g) \<longrightarrow> oldest_candidate created r d g)"
proof -
  have a: "\<forall>g. GameService_findWaiting r d = Inr (Some g) \<longrightarrow>
         g \<in> set (stored_games d) \<and> status g = ''waiting'' \<and> isRanked g = r"
    by (auto simp: findWaiting_eq find_Some_iff is_candidate_def split: option.splits)
  have b: "fault d = None \<and> list_ex (is_candidate r) (stored_games d) \<longrightarrow>
         (\<exists>g. GameService_findWaiting r d = Inr (Some g))"
  proof (intro impI, elim conjE)
    assume f: "fault d = None" and ex: "list_ex (is_candidate r) (stored_games d)"
    from ex have "find (is_candidate r) (stored_games d) \<noteq> None"
      by (auto simp: find_None_iff list_ex_iff)
    then obtain g where "find (is_candidate r) (stored_games d) = Some g" by blast
    with f show "\<exists>g. GameService_findWaiting r d = Inr (Some g)"
      by (simp add: findWaiting_eq)
  qed
  have c: "oldest_candidate created r d g"
    if s: "sorted_wrt (\<lambda>a b. created (id_col a) \<le> created (id_col b)) (gameTable d)"
    and f: "GameService_findWaiting r d = Inr (Some g)" for g
  proof -
    from f have fd: "find (is_candidate r) (stored_games d) = Some g"
      by (auto simp: findWaiting_eq split: option.splits)
    have s': "sorted_wrt (\<lambda>a b. created (id_col a) \<le> created (id_col b)) (stored_games d)"
      using s by (simp add: stored_games_def sorted_wrt_map)
    have "is_candidate r g" using fd by (auto simp: find_Some_iff)
    moreover have "created (id_col g) \<le> created (id_col g')"
      if "g' \<in> set (stored_games d)" "is_candidate r g'" for g'
      using find_sorted_least[OF s' fd that] .
    ultimately show ?thesis by (auto simp: oldest_candidate_def list_all_iff)
  qed
  show ?thesis using findWaiting_eq a b c by blast
qed


text \<open>In the example of five games in creation order, the ranked request gets
  the game 3, the older of the two waiting ranked games, and the casual request
  the game 1, the older of the two waiting casual games.\<close>

theorem findWaiting_first_candidate_witness:
  "fault db4 = None
   \<and> sorted_wrt (\<lambda>a b. id_col a \<le> id_col b) (gameTable db4)
   \<and> list_ex (is_candidate True) (stored_games db4)
   \<and> list_ex (is_candidate False) (stored_games db4)
   \<and> GameService_findWaiting True db4 =
       Inr (Some \<lparr> id_col = 3, isRanked = True, status = ''waiting'', invitee = None,
                    users = [bob] \<rparr>)
   \<and> oldest_candidate (\<lambda>i. i) True db4
       \<lparr> id_col = 3, isRanked = True, status = ''waiting'', invitee = None, users = [bob] \<rparr>
   \<and> GameService_findWaiting False db4 =
       Inr (Some \<lparr> id_col = 1, isRanked = False, status = ''waiting'', invitee = None,
                    users = [alice] \<rparr>)
   \<and> oldest_candidate (\<lambda>i. i) False db4
       \<lparr> id_col = 1, isRanked = False, status = ''waiting'', invitee = None,
          users = [alice] \<rparr>"
proof -
  have f: "fault db4 = None" by (simp add: db4_def)
  have so: "sorted_wrt (\<lambda>a b. id_col a \<le> id_col b) (gameTable db4)"
    by (simp add: db4_def)
  have ex: "list_ex (is_candidate True) (stored_games db4)"
      "list_ex (is_candidate False) (stored_games db4)"
    by (simp_all add: is_candidate_def stored_games_def db4_def include_all_def)
  have r: "GameService_findWaiting True db4 =
       Inr (Some \<lparr> id_col = 3, isRanked = True, status = ''waiting'', invitee = None,
                    users = [bob] \<rparr>)"
    by (simp add: findWaiting_eq is_candidate_def stored_games_def db4_def include_all_def
        alice_def bob_def)
  have c: "GameService_findWaiting False db4 =
       Inr (Some \<lparr> id_col = 1, isRanked = False, status = ''waiting'', invitee = None,
                    users = [alice] \<rparr>)"
    by (simp add: findWaiting_eq is_candidate_def stored_games_def db4_def include_all_def
        alice_def bob_def)
  show ?thesis
    using f so ex r c findWaiting_first_candidate[of True db4 "\<lambda>i. i"]
      findWaiting_first_candidate[of False db4 "\<lambda>i. i"]
    by blast
qed

text \<open>Claim C6 as stated fails: in the second example the database returns the
  game 7 before the game 6, both waiting and ranked; \<^verbatim>\<open>findWaiting(true)\<close>
  selects the game 7, although the game 6 was created first.\<close>

theorem findWaiting_not_oldest:
  "GameService_findWaiting True db2 =
     Inr (Some \<lparr> id_col = 7, isRanked = True, status = ''waiting'', invitee = None,
                  users = [bob] \<rparr>)
   \<and> \<not> oldest_candidate (\<lambda>i. i) True db2
        \<lparr> id_col = 7, isRanked = True, status = ''waiting'', invitee = None, users = [bob] \<rparr>"
  by (simp add: GameService_findWaiting_def gameRepository_findOne_def db2_def include_all_def
       alice_def bob_def oldest_candidate_def is_candidate_def stored_games_def)



subsection \<open>Status\<close>

lemma create_game_cases:
  "GameService_create fresh v d = (r, d') \<Longrightarrow>
     (\<exists>e. r = Inl (HttpException (Caught e) INTERNAL_SERVER_ERROR) \<and> d' = d)
   \<or> (\<exists>row. status_dto v = Some (status row) \<and> status row \<in> set Game_status_values
         \<and> id_col row \<notin> set (map id_col (gameTable d))
         \<and> gameTable d' = gameTable d @ [row]
         \<and> userGameTable d' = userGameTable d
              @ map (\<lambda>u. \<lparr> userLogin = login u, gameId = id_col row, score = default_score \<rparr>)
                  (users_dto v)
         \<and> userTable d' = userTable d \<and> fault d' = fault d)"
  unfolding GameService_create_def gameRepository_create_def add_users_def
  by (auto split: option.splits if_splits simp: Let_def)

lemma update_game_cases:
  "snd (GameService_update v d) = d
   \<or> (\<exists>i. id_dto v = Some i \<and> fault d = None
        \<and> (\<forall>s. status_dto v = Some s \<longrightarrow> s \<in> set Game_status_values)
        \<and> snd (GameService_update v d)
            = d\<lparr> gameTable := map (\<lambda>g. if id_col g = i then set_cols v g else g) (gameTable d) \<rparr>)"
  unfolding GameService_update_def gameRepository_update_def
  by (auto split: option.splits if_splits)

lemma bad_status_create:
  assumes "status_dto v = Some s" "s \<notin> set Game_status_values"
  shows "\<exists>e. GameService_create fresh v d = (Inl (HttpException (Caught e) INTERNAL_SERVER_ERROR), d)"
  using assms unfolding GameService_create_def gameRepository_create_def
  by (auto split: option.splits)

lemma bad_status_update:
  assumes "status_dto v = Some s" "s \<notin> set Game_status_values"
  shows "snd (GameService_update v d) = d"
  using assms unfolding GameService_update_def gameRepository_update_def
  by (auto split: option.splits)

lemma status_set_cols:
  "status (set_cols v g) = (case status_dto v of None \<Rightarrow> status g | Some s \<Rightarrow> s)"
  by (simp add: set_cols_def)

lemma reachable_status:
  "reachable d \<Longrightarrow> list_all (\<lambda>g. status g \<in> set Game_status_values) (gameTable d)"
proof (induction rule: reachable.induct)
  case (start us f)
  show ?case by simp
next
  case (environment d us f)
  then show ?case by simp
next
  case (game_create d fresh gameDto)
  obtain r d' where rd: "GameService_create fresh gameDto d = (r, d')"
    by (cases "GameService_create fresh gameDto d")
  from create_game_cases[OF rd] game_create.IH show ?case
    by (auto simp: rd)
next
  case (game_update d gameDto)
  from update_game_cases[of gameDto d] show ?case
  proof
    assume "snd (GameService_update gameDto d) = d"
    with game_update.IH show ?thesis by simp
  next
    assume "\<exists>i. id_dto gameDto = Some i \<and> fault d = None
        \<and> (\<forall>s. status_dto gameDto = Some s \<longrightarrow> s \<in> set Game_status_values)
        \<and> snd (GameService_update gameDto d)
            = d\<lparr> gameTable := map (\<lambda>g. if id_col g = i then set_cols gameDto g else g)
                                 (gameTable d) \<rparr>"
    then obtain i where ok: "\<forall>s. status_dto gameDto = Some s \<longrightarrow> s \<in> set Game_status_values"
      and eq: "snd (GameService_update gameDto d)
            = d\<lparr> gameTable := map (\<lambda>g. if id_col g = i then set_cols gameDto g else g)
                                 (gameTable d) \<rparr>"
      by blast
    have "status (set_cols gameDto g) \<in> set Game_status_values"
      if "status g \<in> set Game_status_values" for g :: "'a GameRow"
      using that ok by (cases "status_dto gameDto") (simp_all add: status_set_cols)
    with game_update.IH show ?thesis
      unfolding eq by (auto simp: list_all_iff)
  qed
next
  case (user_game_create d l g)
  obtain r d' where rd: "UserGameController_create l g d = (r, d')"
    by (cases "UserGameController_create l g d")
  from create_cases[OF rd] user_game_create.IH show ?case
    by (auto simp: rd)
next
  case (user_game_update d i l s)
  obtain r d' where rd: "UserGameController_update i l s d = (r, d')"
    by (cases "UserGameController_update i l s d")
  from update_cases[OF rd] user_game_update.IH show ?case
    by (auto simp: rd)
qed

text \<open>Claim C2. In every database reached by the operations, every game has one
  of the five declared statuses. Creating a game with another status fails with
  status 500 and stores nothing; updating a game to another status leaves the
  database unchanged.\<close>

theorem status_closed:
  "(reachable d \<longrightarrow> list_all (\<lambda>g. status g \<in> set Game_status_values) (gameTable d))
   \<and> (status_dto gameDto = Some s \<and> s \<notin> set Game_status_values \<longrightarrow>
        (\<exists>e. GameService_create fresh gameDto d
               = (Inl (HttpException (Caught e) INTERNAL_SERVER_ERROR), d))
        \<and> snd (GameService_update gameDto d) = d)"
  using reachable_status[of d] bad_status_create[of gameDto s fresh d]
    bad_status_update[of gameDto s d]
  by blast

lemma db3_steps:
  "snd (GameService_update dto_finish (snd (GameService_create 1 dto_new db0))) = db3"
proof -
  let ?a = "\<lparr> userTable = [alice, bob],
              gameTable = [ \<lparr> id_col = 1::nat, isRanked = False, status = ''waiting'',
                              invitee = None \<rparr> ],
              userGameTable = [ \<lparr> userLogin = ''alice'', gameId = 1, score = 0 \<rparr>,
                                \<lparr> userLogin = ''bob'', gameId = 1, score = 0 \<rparr> ],
              fault = None \<rparr>"
  have s1: "snd (GameService_create 1 dto_new db0) = ?a"
    by (simp add: GameService_create_def gameRepository_create_def add_users_def
        Game_status_values_def default_score_def db0_def dto_new_def alice_def bob_def
        Let_def)
  have s2: "snd (GameService_update dto_finish ?a) = db3"
    by (simp add: GameService_update_def gameRepository_update_def set_cols_def
        Game_status_values_def dto_finish_def db3_def)
  show ?thesis by (simp only: s1 s2)
qed

lemma reachable_db3: "reachable db3"
proof -
  have "reachable db0" unfolding db0_def by (rule reachable.start)
  then have "reachable (snd (GameService_update dto_finish
                              (snd (GameService_create 1 dto_new db0))))"
    by (intro reachable.game_update reachable.game_create)
  then show ?thesis by (simp only: db3_steps)
qed

theorem status_closed_witness:
  "reachable db3
   \<and> status_dto dto_paused = Some ''paused'' \<and> ''paused'' \<notin> set Game_status_values
   \<and> list_all (\<lambda>g. status g \<in> set Game_status_values) (gameTable db3)
   \<and> GameService_create 2 dto_paused db3
       = (Inl (HttpException (Caught (InvalidEnumValue ''status''))
                 INTERNAL_SERVER_ERROR), db3)
   \<and> GameService_update dto_paused db3 = (Inr None, db3)"
proof -
  have r: "reachable db3" by (rule reachable_db3)
  have h: "status_dto dto_paused = Some ''paused'' \<and> ''paused'' \<notin> set Game_status_values"
    by (simp add: dto_paused_def Game_status_values_def)
  have c: "fst (GameService_create 2 dto_paused db3)
       = Inl (HttpException (Caught (InvalidEnumValue ''status''))
                 INTERNAL_SERVER_ERROR)"
    by (simp add: GameService_create_def gameRepository_create_def dto_paused_def db3_def
        Game_status_values_def)
  have u: "fst (GameService_update dto_paused db3) = Inr None"
    by (simp add: GameService_update_def)
  show ?thesis
    using r h c u status_closed[of db3 dto_paused "''paused''" 2]
    by (metis prod.collapse fst_conv snd_conv)
qed

subsection \<open>Scores\<close>









subsection \<open>Status and scores\<close>






end
